theory Spec2Isabelle
  imports Main
begin

section \<open>Messages (message.py)\<close>

text \<open>
  A tool-call request as the completion endpoint returns it: \<open>tc.id\<close>,
  \<open>tc.function.name\<close> and \<open>tc.function.arguments\<close> (a JSON text; \<open>None\<close> is Python's
  \<open>None\<close>).
\<close>

record tool_call =
  tc_id :: string
  fn_name :: string
  fn_arguments :: "string option"

text \<open>
  \<open>Message\<close> is a \<open>TypedDict\<close>: a plain dictionary with the keys \<open>role\<close> and \<open>content\<close> and
  the optional keys \<open>tool_call_id\<close>, \<open>name\<close> and \<open>tool_calls\<close>. An optional key that is not
  set is \<open>None\<close> here; so is a \<open>content\<close> that is Python's \<open>None\<close>, as the endpoint sends
  for an assistant turn that only requests tools.
\<close>

record message =
  role :: string
  content :: "string option"
  tool_call_id :: "string option"
  name :: "string option"
  tool_calls :: "tool_call list option"

section \<open>The conversation store (memory.py)\<close>

record simple_memory =
  messages :: "message list"

definition init_memory :: simple_memory where
  "init_memory = \<lparr>messages = []\<rparr>"

definition add_message :: "message \<Rightarrow> simple_memory \<Rightarrow> simple_memory" where
  "add_message m s = s\<lparr>messages := messages s @ [m]\<rparr>"

definition insert_system_message :: "message \<Rightarrow> simple_memory \<Rightarrow> simple_memory" where
  "insert_system_message m s =
     (if length (messages s) > 0 then
        (if role (messages s ! 0) = ''system'' then s\<lparr>messages := (messages s)[0 := m]\<rparr>
         else s\<lparr>messages := m # messages s\<rparr>)
      else s\<lparr>messages := [m]\<rparr>)"

definition clear :: "simple_memory \<Rightarrow> simple_memory" where
  "clear s = s\<lparr>messages := []\<rparr>"

text \<open>The calls a user of the store can make, and a run of them in order.\<close>

datatype memory_op = Add_message message | Insert_system_message message | Clear

fun apply_memory_op :: "simple_memory \<Rightarrow> memory_op \<Rightarrow> simple_memory" where
  "apply_memory_op s (Add_message m) = add_message m s"
| "apply_memory_op s (Insert_system_message m) = insert_system_message m s"
| "apply_memory_op s Clear = clear s"

definition run_memory_ops :: "memory_op list \<Rightarrow> simple_memory \<Rightarrow> simple_memory" where
  "run_memory_ops ops s = foldl apply_memory_op s ops"

text \<open>
  The system-message invariant: at most one Message has role \<open>system\<close>, and a Message with
  that role sits at index 0.
\<close>

definition is_system :: "message \<Rightarrow> bool" where
  "is_system m = (role m = ''system'')"

definition system_slot_inv :: "message list \<Rightarrow> bool" where
  "system_slot_inv ms =
     (length (filter is_system ms) \<le> 1 \<and>
      (\<forall>i \<in> set [0..<length ms]. is_system (ms ! i) \<longrightarrow> i = 0))"

fun is_add_of_system :: "memory_op \<Rightarrow> bool" where
  "is_add_of_system (Add_message m) = is_system m"
| "is_add_of_system _ = False"

text \<open>
  A run in which \<open>add_message\<close> is given a system Message only when the store is empty at
  that moment.
\<close>

fun adds_system_on_empty :: "memory_op list \<Rightarrow> simple_memory \<Rightarrow> bool" where
  "adds_system_on_empty [] s = True"
| "adds_system_on_empty (op # ops) s =
     ((if is_add_of_system op then messages s = [] else True) \<and>
      adds_system_on_empty ops (apply_memory_op s op))"

definition user_message :: "string \<Rightarrow> message" where
  "user_message q =
     \<lparr>role = ''user'', content = Some q, tool_call_id = None, name = None, tool_calls = None\<rparr>"

definition system_message :: "string \<Rightarrow> message" where
  "system_message q =
     \<lparr>role = ''system'', content = Some q, tool_call_id = None, name = None, tool_calls = None\<rparr>"

section \<open>The client (client.py)\<close>

subsection \<open>Values, errors and the outside world\<close>

text \<open>The exceptions that can leave \<open>invoke\<close>, as values.\<close>

datatype error =
    ValueError string
  | RuntimeError string
  | JSONDecodeError
  | TypeError
  | IndexError
  | ToolError string
  | TransportError string

text \<open>
  What \<open>json.loads\<close> returns. A number keeps its literal text; a JSON object is a
  dictionary with text keys, here the list of its items.
\<close>

datatype json =
    JNull
  | JBool bool
  | JNumber string
  | JString string
  | JArray "json list"
  | JObject "(string \<times> json) list"

type_synonym kwargs = "(string \<times> json) list"

text \<open>
  An entry of \<open>self.tools\<close>: \<open>{"func": func, "schema": schema}\<close>. The callable takes
  keyword arguments and returns a value of some type \<open>'r\<close> or raises; it is taken to be a
  function of its arguments.
\<close>

record ('r, 's) tool =
  func :: "kwargs \<Rightarrow> error + 'r"
  schema :: 's

text \<open>
  The fields of \<open>LLMClient\<close> that the methods read. \<open>self.tools\<close> is a dictionary in
  insertion order: the list of its items, looked up with \<open>map_of\<close>.
\<close>

record ('r, 's) llm_client =
  model_name :: "string option"
  tools :: "(string \<times> ('r, 's) tool) list"

text \<open>
  A completion choice \<open>response.choices[0]\<close> and its \<open>message\<close>, of which the code reads
  \<open>tool_calls\<close> and which \<open>model_dump()\<close> turns into a dictionary.
\<close>

record chat_message =
  cm_role :: string
  cm_content :: "string option"
  cm_tool_calls :: "tool_call list option"

record choice =
  message :: chat_message

text \<open>
  The library functions the client calls, which are not code of this repository:
  \<^item> \<open>create k model messages tools\<close> is \<open>self.client.chat.completions.create\<close>, the
    \<open>k\<close>-th request made to the endpoint (counting from 0): it raises, or returns the
    \<open>choices\<close> of a completion;
  \<^item> \<open>json_loads\<close> is \<open>json.loads\<close>: it raises or returns the decoded value;
  \<^item> \<open>py_str\<close> is \<open>str\<close> on what the callables return.
\<close>

record ('r, 's) library =
  create :: "nat \<Rightarrow> string option \<Rightarrow> message list \<Rightarrow> 's list \<Rightarrow> error + choice list"
  json_loads :: "string \<Rightarrow> error + json"
  py_str :: "'r \<Rightarrow> string"

text \<open>
  The mutable state. List objects live in a store, by address, so that a list the caller
  holds and the list \<open>invoke\<close> appends to can be the same object. The two logs record what
  \<open>invoke\<close> has done: the message sequence sent with each request to the endpoint, and
  the requests handed to \<open>_make_tool_call\<close>, oldest first. Printing is not modelled.
\<close>

type_synonym ref = nat

record world =
  heap :: "ref \<Rightarrow> message list"
  next_ref :: ref
  llm_log :: "message list list"
  tool_log :: "tool_call list"

definition new_list :: "message list \<Rightarrow> world \<Rightarrow> ref \<times> world" where
  "new_list ms w = (next_ref w, w\<lparr>heap := (heap w)(next_ref w := ms), next_ref := Suc (next_ref w)\<rparr>)"

definition list_append :: "ref \<Rightarrow> message \<Rightarrow> world \<Rightarrow> world" where
  "list_append r m w = w\<lparr>heap := (heap w)(r := heap w r @ [m])\<rparr>"

text \<open>Truth of a text value that may be \<open>None\<close>, and Python's \<open>a or b\<close> on such values.\<close>

definition truthy :: "string option \<Rightarrow> bool" where
  "truthy a = (case a of None \<Rightarrow> False | Some s \<Rightarrow> s \<noteq> [])"

definition py_or :: "string option \<Rightarrow> string option \<Rightarrow> string option" where
  "py_or a b = (if truthy a then a else b)"

subsection \<open>\<open>_make_llm_call\<close>\<close>

definition make_llm_call ::
  "('r, 's) library \<Rightarrow> ('r, 's) llm_client \<Rightarrow> ref \<Rightarrow> string option \<Rightarrow> world
     \<Rightarrow> (error + choice) \<times> world" where
  "make_llm_call lib self msgs model_nm w =
     (let available_tools = map (\<lambda>(n, t). schema t) (tools self);
          w' = w\<lparr>llm_log := llm_log w @ [heap w msgs]\<rparr>
      in case create lib (length (llm_log w)) (py_or model_nm (model_name self))
                (heap w msgs) available_tools of
           Inl e \<Rightarrow> (Inl e, w')
         | Inr choices \<Rightarrow>
             (case choices of [] \<Rightarrow> (Inl IndexError, w') | c # _ \<Rightarrow> (Inr c, w')))"

subsection \<open>\<open>_make_tool_call\<close>\<close>

text \<open>Line 37: \<open>json.loads(tool_args) if tool_args else {}\<close>.\<close>

definition load_arguments :: "('r, 's) library \<Rightarrow> string option \<Rightarrow> error + json" where
  "load_arguments lib tool_args =
     (case tool_args of
        None \<Rightarrow> Inr (JObject [])
      | Some s \<Rightarrow> if s \<noteq> [] then json_loads lib s else Inr (JObject []))"

text \<open>\<open>func(**tool_args)\<close>: unpacking anything but a dictionary is a \<open>TypeError\<close>.\<close>

fun call_kw :: "(kwargs \<Rightarrow> error + 'r) \<Rightarrow> json \<Rightarrow> error + 'r" where
  "call_kw f (JObject kvs) = f kvs"
| "call_kw f _ = Inl TypeError"

definition unknown_tool :: "string \<Rightarrow> error" where
  "unknown_tool tool_name =
     RuntimeError (''LLM tried to call unknown tool '' @ [CHR 0x27] @ tool_name @ [CHR 0x27])"

definition make_tool_call ::
  "('r, 's) library \<Rightarrow> ('r, 's) llm_client \<Rightarrow> tool_call \<Rightarrow> error + string \<times> string \<times> string" where
  "make_tool_call lib self tc =
     (let tool_name = fn_name tc in
      case load_arguments lib (fn_arguments tc) of
        Inl e \<Rightarrow> Inl e
      | Inr tool_args \<Rightarrow>
          (case map_of (tools self) tool_name of
             Some t \<Rightarrow>
               (case call_kw (func t) tool_args of
                  Inl e \<Rightarrow> Inl e
                | Inr v \<Rightarrow> Inr (tc_id tc, tool_name, py_str lib v))
           | None \<Rightarrow> Inl (unknown_tool tool_name)))"

subsection \<open>\<open>invoke\<close>\<close>

text \<open>
  The query, by what \<open>type(query)\<close> is at run time. Calling a \<open>TypedDict\<close> class builds a
  plain dictionary, so the type of a Message is \<open>dict\<close>, never the class \<open>Message\<close>.
\<close>

datatype py_type = T_str | T_Message | T_list | T_dict | T_other

datatype query =
    QStr (str_of: string)
  | QMessage (message_of: message)
  | QList (list_of: ref)
  | QOther

fun type_of :: "query \<Rightarrow> py_type" where
  "type_of (QStr s) = T_str"
| "type_of (QMessage m) = T_dict"
| "type_of (QList r) = T_list"
| "type_of QOther = T_other"

text \<open>Lines 47 to 54: the list object that \<open>messages\<close> is bound to.\<close>

definition query_messages :: "query \<Rightarrow> world \<Rightarrow> (error + ref) \<times> world" where
  "query_messages q w =
     (if type_of q = T_str then
        (let (r, w') = new_list [user_message (str_of q)] w in (Inr r, w'))
      else if type_of q = T_Message then
        (let (r, w') = new_list [message_of q] w in (Inr r, w'))
      else if type_of q = T_list then (Inr (list_of q), w)
      else (Inl (ValueError ''Parameter query is of wrong type!''), w))"

text \<open>\<open>response.message.model_dump()\<close>, on the keys of a Message.\<close>

definition model_dump :: "chat_message \<Rightarrow> message" where
  "model_dump m =
     \<lparr>role = cm_role m, content = cm_content m, tool_call_id = None, name = None,
      tool_calls = cm_tool_calls m\<rparr>"

definition tool_message :: "string \<times> string \<times> string \<Rightarrow> message" where
  "tool_message res =
     (case res of (tool_call_id', tool_name, tool_result) \<Rightarrow>
        \<lparr>role = ''tool'', content = Some tool_result, tool_call_id = Some tool_call_id',
         name = Some tool_name, tool_calls = None\<rparr>)"

text \<open>
  Lines 60 to 70, the loop over the tool calls of one response: \<open>None\<close> when it ran to its
  end, the exception that left it otherwise.
\<close>

fun tool_loop ::
  "('r, 's) library \<Rightarrow> ('r, 's) llm_client \<Rightarrow> ref \<Rightarrow> tool_call list \<Rightarrow> world
     \<Rightarrow> error option \<times> world" where
  "tool_loop lib self msgs [] w = (None, w)"
| "tool_loop lib self msgs (tc # tcs) w =
     (let w1 = w\<lparr>tool_log := tool_log w @ [tc]\<rparr> in
      case make_tool_call lib self tc of
        Inl e \<Rightarrow> (Some e, w1)
      | Inr res \<Rightarrow> tool_loop lib self msgs tcs (list_append msgs (tool_message res) w1))"

definition invoke ::
  "('r, 's) library \<Rightarrow> ('r, 's) llm_client \<Rightarrow> query \<Rightarrow> string option \<Rightarrow> bool \<Rightarrow> world
     \<Rightarrow> (error + choice) \<times> world" where
  "invoke lib self q model_nm verbose w =
     (case query_messages q w of
        (Inl e, w0) \<Rightarrow> (Inl e, w0)
      | (Inr msgs, w0) \<Rightarrow>
          (case make_llm_call lib self msgs model_nm w0 of
             (Inl e, w1) \<Rightarrow> (Inl e, w1)
           | (Inr response, w1) \<Rightarrow>
               (case cm_tool_calls (message response) of
                  Some tcs \<Rightarrow>
                    (case tool_loop lib self msgs tcs
                            (list_append msgs (model_dump (message response)) w1) of
                       (Some e, w2) \<Rightarrow> (Inl e, w2)
                     | (None, w2) \<Rightarrow> make_llm_call lib self msgs model_nm w2)
                | None \<Rightarrow> (Inr response, w1))))"

subsection \<open>Reading the model\<close>

text \<open>
  What \<open>_make_llm_call\<close> returns for the \<open>k\<close>-th request, sent with the message sequence
  \<open>ms\<close>: the first choice of the completion, an \<open>IndexError\<close> when it has no choice, or
  the exception of the endpoint.
\<close>

definition completion ::
  "('r, 's) library \<Rightarrow> ('r, 's) llm_client \<Rightarrow> nat \<Rightarrow> string option \<Rightarrow> message list
     \<Rightarrow> error + choice" where
  "completion lib self k model_nm ms =
     (case create lib k (py_or model_nm (model_name self)) ms
             (map (\<lambda>(n, t). schema t) (tools self)) of
        Inl e \<Rightarrow> Inl e
      | Inr [] \<Rightarrow> Inl IndexError
      | Inr (c # _) \<Rightarrow> Inr c)"

text \<open>The world after a request was sent with the list at \<open>r\<close>, and after a batch of tool calls.\<close>

definition sent :: "ref \<Rightarrow> world \<Rightarrow> world" where
  "sent r w = w\<lparr>llm_log := llm_log w @ [heap w r]\<rparr>"

definition batch_done :: "ref \<Rightarrow> message list \<Rightarrow> tool_call list \<Rightarrow> world \<Rightarrow> world" where
  "batch_done r ms tcs w =
     w\<lparr>heap := (heap w)(r := heap w r @ ms), tool_log := tool_log w @ tcs\<rparr>"

subsection \<open>A small deployment to run the model on\<close>

text \<open>
  Two tools: \<open>ping\<close>, which takes any keyword arguments and returns \<open>pong\<close>, and
  \<open>get_weather(city)\<close>. The decoder stands for \<open>json.loads\<close> on the argument texts used
  below: it decodes \<open>{}\<close> and \<open>{"city": "Paris"}\<close> as \<open>json.loads\<close> does and rejects every
  other text, among them \<open>{\<close>, which \<open>json.loads\<close> rejects too. The endpoint answers the
  \<open>k\<close>-th request with the \<open>k\<close>-th choice of a script and fails when the script is over.
  The callables return text, whose \<open>str\<close> is the text itself.
\<close>

definition city_args :: string where
  \<open>city_args = ''{"city": "Paris"}''\<close>

definition demo_loads :: "string \<Rightarrow> error + json" where
  "demo_loads s =
     (if s = ''{}'' then Inr (JObject [])
      else if s = city_args then Inr (JObject [(''city'', JString ''Paris'')])
      else Inl JSONDecodeError)"

definition ping_tool :: "(string, unit) tool" where
  "ping_tool = \<lparr>func = (\<lambda>kw. Inr ''pong''), schema = ()\<rparr>"

definition get_weather_tool :: "(string, unit) tool" where
  "get_weather_tool =
     \<lparr>func = (\<lambda>kw. case kw of
                [(k, JString city)] \<Rightarrow> if k = ''city'' then Inr ''Sunny, 22C'' else Inl TypeError
              | _ \<Rightarrow> Inl TypeError),
      schema = ()\<rparr>"

definition demo_client :: "(string, unit) llm_client" where
  "demo_client =
     \<lparr>model_name = Some ''demo'',
      tools = [(''ping'', ping_tool), (''get_weather'', get_weather_tool)]\<rparr>"

definition scripted :: "choice list \<Rightarrow> (string, unit) library" where
  "scripted rs =
     \<lparr>create = (\<lambda>k model ms ts.
         if k < length rs then Inr [rs ! k] else Inl (TransportError ''connection refused'')),
      json_loads = demo_loads,
      py_str = (\<lambda>s. s)\<rparr>"

definition assistant :: "string option \<Rightarrow> tool_call list option \<Rightarrow> choice" where
  "assistant c tcs = \<lparr>message = \<lparr>cm_role = ''assistant'', cm_content = c, cm_tool_calls = tcs\<rparr>\<rparr>"

definition request :: "string \<Rightarrow> string \<Rightarrow> string option \<Rightarrow> tool_call" where
  "request i n a = \<lparr>tc_id = i, fn_name = n, fn_arguments = a\<rparr>"

definition empty_world :: world where
  "empty_world = \<lparr>heap = (\<lambda>r. []), next_ref = 0, llm_log = [], tool_log = []\<rparr>"

text \<open>A world in which the caller holds one list, at address 0, with one user Message.\<close>

definition caller_world :: world where
  "caller_world =
     \<lparr>heap = (\<lambda>r. [])(0 := [user_message ''hi'']), next_ref = 1, llm_log = [], tool_log = []\<rparr>"

section \<open>The store: helper facts\<close>

lemma system_slot_inv_tl:
  "system_slot_inv ms \<longleftrightarrow> (\<forall>m \<in> set (tl ms). \<not> is_system m)"
proof (cases ms)
  case Nil
  then show ?thesis by (simp add: system_slot_inv_def)
next
  case (Cons x xs)
  have idx: "(\<forall>i \<in> set [0..<length (x # xs)]. is_system ((x # xs) ! i) \<longrightarrow> i = 0)
               \<longleftrightarrow> (\<forall>m \<in> set xs. \<not> is_system m)"
  proof
    assume a: "\<forall>i \<in> set [0..<length (x # xs)]. is_system ((x # xs) ! i) \<longrightarrow> i = 0"
    show "\<forall>m \<in> set xs. \<not> is_system m"
    proof
      fix m assume "m \<in> set xs"
      then obtain j where j: "j < length xs" "xs ! j = m"
        by (auto simp: in_set_conv_nth)
      from a j(1) have "is_system ((x # xs) ! Suc j) \<longrightarrow> Suc j = 0"
        by (metis atLeastLessThan_iff length_Cons not_less_eq set_upt zero_le)
      with j(2) show "\<not> is_system m" by simp
    qed
  next
    assume b: "\<forall>m \<in> set xs. \<not> is_system m"
    show "\<forall>i \<in> set [0..<length (x # xs)]. is_system ((x # xs) ! i) \<longrightarrow> i = 0"
    proof (intro ballI impI)
      fix i assume i: "i \<in> set [0..<length (x # xs)]" and s: "is_system ((x # xs) ! i)"
      show "i = 0"
      proof (rule ccontr)
        assume "i \<noteq> 0"
        then obtain j where ij: "i = Suc j" by (cases i) auto
        from i have "i < Suc (length xs)" by auto
        with ij have "j < length xs" by simp
        then have "xs ! j \<in> set xs" by simp
        with b s ij show False by simp
      qed
    qed
  qed
  have cnt: "(\<forall>m \<in> set xs. \<not> is_system m) \<Longrightarrow> filter is_system xs = []"
    by (simp add: filter_empty_conv)
  show ?thesis
    unfolding system_slot_inv_def Cons idx
    using cnt by auto
qed

lemma insert_system_message_inv:
  "system_slot_inv (messages s) \<Longrightarrow> system_slot_inv (messages (insert_system_message m s))"
  unfolding system_slot_inv_tl
  by (cases "messages s") (auto simp: insert_system_message_def is_system_def)

lemma add_message_inv:
  "system_slot_inv (messages s) \<Longrightarrow> \<not> is_system m \<Longrightarrow>
   system_slot_inv (messages (add_message m s))"
  unfolding system_slot_inv_tl
  by (cases "messages s") (auto simp: add_message_def)

lemma clear_inv: "system_slot_inv (messages (clear s))"
  by (simp add: system_slot_inv_def clear_def)

lemma apply_memory_op_inv:
  "system_slot_inv (messages s) \<Longrightarrow> \<not> is_add_of_system op \<Longrightarrow>
   system_slot_inv (messages (apply_memory_op s op))"
  by (cases op) (simp_all add: insert_system_message_inv add_message_inv clear_inv)

lemma add_system_breaks:
  "is_system m \<Longrightarrow> messages s \<noteq> [] \<Longrightarrow>
   \<not> system_slot_inv (messages (add_message m s))"
  unfolding system_slot_inv_tl
  by (cases "messages s") (auto simp: add_message_def)

lemma add_on_empty_inv:
  "messages s = [] \<Longrightarrow> system_slot_inv (messages (add_message m s))"
  unfolding system_slot_inv_tl by (simp add: add_message_def)

lemma apply_memory_op_inv_iff:
  assumes "system_slot_inv (messages s)"
  shows "system_slot_inv (messages (apply_memory_op s op))
           \<longleftrightarrow> (if is_add_of_system op then messages s = [] else True)"
proof (cases "is_add_of_system op")
  case False
  with assms show ?thesis by (simp add: apply_memory_op_inv)
next
  case True
  then obtain m where op: "op = Add_message m" and m: "is_system m"
    by (cases op) auto
  show ?thesis
    using True m add_system_breaks [of m s] add_on_empty_inv [of s m]
    by (auto simp: op)
qed

lemma run_memory_ops_Cons:
  "run_memory_ops (op # ops) s = run_memory_ops ops (apply_memory_op s op)"
  by (simp add: run_memory_ops_def)

lemma inv_along_run:
  "system_slot_inv (messages s) \<Longrightarrow>
   (\<forall>n \<le> length ops. system_slot_inv (messages (run_memory_ops (take n ops) s)))
     \<longleftrightarrow> adds_system_on_empty ops s"
proof (induction ops arbitrary: s)
  case Nil
  then show ?case by (simp add: run_memory_ops_def)
next
  case (Cons op ops)
  let ?s' = "apply_memory_op s op"
  have split: "(\<forall>n \<le> length (op # ops).
                  system_slot_inv (messages (run_memory_ops (take n (op # ops)) s)))
      \<longleftrightarrow> (system_slot_inv (messages ?s') \<and>
           (\<forall>k \<le> length ops. system_slot_inv (messages (run_memory_ops (take k ops) ?s'))))"
  proof
    assume a: "\<forall>n \<le> length (op # ops).
                  system_slot_inv (messages (run_memory_ops (take n (op # ops)) s))"
    have "\<forall>k \<le> length ops. system_slot_inv (messages (run_memory_ops (take k ops) ?s'))"
    proof (intro allI impI)
      fix k assume "k \<le> length ops"
      then have "Suc k \<le> length (op # ops)" by simp
      with a have "system_slot_inv (messages (run_memory_ops (take (Suc k) (op # ops)) s))"
        by blast
      then show "system_slot_inv (messages (run_memory_ops (take k ops) ?s'))"
        by (simp add: run_memory_ops_Cons)
    qed
    moreover from this have "system_slot_inv (messages ?s')"
      by (metis le0 run_memory_ops_def take_0 foldl_Nil)
    ultimately show "system_slot_inv (messages ?s') \<and>
           (\<forall>k \<le> length ops. system_slot_inv (messages (run_memory_ops (take k ops) ?s')))"
      by blast
  next
    assume b: "system_slot_inv (messages ?s') \<and>
           (\<forall>k \<le> length ops. system_slot_inv (messages (run_memory_ops (take k ops) ?s')))"
    show "\<forall>n \<le> length (op # ops).
                  system_slot_inv (messages (run_memory_ops (take n (op # ops)) s))"
    proof (intro allI impI)
      fix n assume n: "n \<le> length (op # ops)"
      show "system_slot_inv (messages (run_memory_ops (take n (op # ops)) s))"
      proof (cases n)
        case 0
        with Cons.prems show ?thesis by (simp add: run_memory_ops_def)
      next
        case (Suc k)
        with n have "k \<le> length ops" by simp
        with b Suc show ?thesis by (simp add: run_memory_ops_Cons)
      qed
    qed
  qed
  show ?case
  proof (cases "system_slot_inv (messages ?s')")
    case True
    from Cons.IH [OF True] True split apply_memory_op_inv_iff [OF Cons.prems, of op]
    show ?thesis by simp
  next
    case False
    with split apply_memory_op_inv_iff [OF Cons.prems, of op]
    show ?thesis by simp
  qed
qed

section \<open>The store: claims\<close>

text \<open>
  C6, as the code has it. After two calls of \<open>insert_system_message m\<close> in succession the
  store is not empty and holds \<open>m\<close> at index 0, for every Message \<open>m\<close> and every store.
  The second call leaves the length as the first call left it when \<open>m\<close> has role
  \<open>system\<close>; for any other role the second call finds a Message at index 0 that is not a
  system Message, prepends, and the store grows by one.
\<close>

theorem insert_system_message_twice:
  "messages (insert_system_message m (insert_system_message m s)) \<noteq> [] \<and>
   messages (insert_system_message m (insert_system_message m s)) ! 0 = m \<and>
   (role m = ''system'' \<longrightarrow>
      length (messages (insert_system_message m (insert_system_message m s)))
        = length (messages (insert_system_message m s))) \<and>
   (role m \<noteq> ''system'' \<longrightarrow>
      length (messages (insert_system_message m (insert_system_message m s)))
        = Suc (length (messages (insert_system_message m s))))"
  by (cases "messages s") (auto simp: insert_system_message_def)

theorem insert_system_message_twice_witness:
  "role (system_message ''Be brief.'') = ''system'' \<and>
   messages (insert_system_message (system_message ''Be brief.'')
      (insert_system_message (system_message ''Be brief.'')
         (add_message (user_message ''hi'') init_memory)))
     = [system_message ''Be brief.'', user_message ''hi''] \<and>
   length (messages (insert_system_message (system_message ''Be brief.'')
      (insert_system_message (system_message ''Be brief.'')
         (add_message (user_message ''hi'') init_memory))))
     = length (messages (insert_system_message (system_message ''Be brief.'')
         (add_message (user_message ''hi'') init_memory)))"
  using insert_system_message_twice
    [of "system_message ''Be brief.''" "add_message (user_message ''hi'') init_memory"]
  by (simp add: insert_system_message_def add_message_def init_memory_def
      system_message_def user_message_def)

text \<open>
  C6 as stated fails: a Message whose role is not \<open>system\<close>, inserted twice into the empty
  store, is there twice, and the second call has grown the store from one Message to two.
\<close>

theorem insert_system_message_twice_grows:
  "length (messages (insert_system_message (user_message ''hi'') init_memory)) = 1 \<and>
   length (messages (insert_system_message (user_message ''hi'')
      (insert_system_message (user_message ''hi'') init_memory))) = 2"
  by (simp add: insert_system_message_def init_memory_def user_message_def)

text \<open>
  C7, as the code has it. Start from a store that satisfies the system-message invariant
  (the empty store of \<open>__init__\<close> does) and run any sequence of \<open>add_message\<close>,
  \<open>insert_system_message\<close> and \<open>clear\<close>. The invariant (at most one system Message, and
  at index 0 if there is one) holds after every operation of the run if and only if
  \<open>add_message\<close> is given a Message of role \<open>system\<close> only when the store is empty at that
  moment; in such a run it holds in particular at the end.
\<close>

theorem system_slot_invariant:
  assumes "system_slot_inv (messages s)"
  shows "(adds_system_on_empty ops s \<longrightarrow> system_slot_inv (messages (run_memory_ops ops s))) \<and>
         ((\<forall>n \<le> length ops. system_slot_inv (messages (run_memory_ops (take n ops) s)))
            \<longleftrightarrow> adds_system_on_empty ops s)"
proof -
  note iff = inv_along_run [OF assms, of ops]
  have "adds_system_on_empty ops s \<longrightarrow> system_slot_inv (messages (run_memory_ops ops s))"
  proof
    assume "adds_system_on_empty ops s"
    with iff have "\<forall>n \<le> length ops. system_slot_inv (messages (run_memory_ops (take n ops) s))"
      by simp
    then have "system_slot_inv (messages (run_memory_ops (take (length ops) ops) s))"
      by blast
    then show "system_slot_inv (messages (run_memory_ops ops s))" by simp
  qed
  with iff show ?thesis by simp
qed

theorem system_slot_invariant_witness:
  "system_slot_inv (messages init_memory) \<and>
   adds_system_on_empty
      [Add_message (system_message ''A''), Add_message (user_message ''hi''),
       Insert_system_message (system_message ''B''), Clear,
       Add_message (system_message ''C'')] init_memory \<and>
   messages (run_memory_ops
      [Add_message (system_message ''A''), Add_message (user_message ''hi''),
       Insert_system_message (system_message ''B''), Clear,
       Add_message (system_message ''C'')] init_memory)
     = [system_message ''C''] \<and>
   system_slot_inv [system_message ''C''] \<and>
   messages (run_memory_ops
      [Add_message (system_message ''A''), Add_message (user_message ''hi''),
       Insert_system_message (system_message ''B'')] init_memory)
     = [system_message ''B'', user_message ''hi''] \<and>
   system_slot_inv [system_message ''B'', user_message ''hi'']"
proof -
  let ?ops = "[Add_message (system_message ''A''), Add_message (user_message ''hi''),
       Insert_system_message (system_message ''B''), Clear,
       Add_message (system_message ''C'')]"
  have h1: "system_slot_inv (messages init_memory)"
    by (simp add: system_slot_inv_def init_memory_def)
  have h2: "adds_system_on_empty ?ops init_memory"
    by (simp add: is_system_def user_message_def system_message_def add_message_def
        insert_system_message_def clear_def init_memory_def)
  have run: "messages (run_memory_ops ?ops init_memory) = [system_message ''C'']"
    by (simp add: run_memory_ops_def add_message_def insert_system_message_def clear_def
        init_memory_def user_message_def system_message_def)
  have run3: "messages (run_memory_ops (take 3 ?ops) init_memory)
     = [system_message ''B'', user_message ''hi'']"
    by (simp add: run_memory_ops_def add_message_def insert_system_message_def clear_def
        init_memory_def user_message_def system_message_def)
  note th = system_slot_invariant [OF h1, of ?ops]
  from th h2 have fin: "system_slot_inv (messages (run_memory_ops ?ops init_memory))"
    by blast
  from th h2 have all: "\<forall>n \<le> length ?ops.
      system_slot_inv (messages (run_memory_ops (take n ?ops) init_memory))"
    by blast
  have "system_slot_inv (messages (run_memory_ops (take 3 ?ops) init_memory))"
    by (rule all [rule_format]) simp
  with run3 have mid: "system_slot_inv [system_message ''B'', user_message ''hi'']"
    by simp
  from h1 h2 run fin mid run3 show ?thesis by simp
qed

text \<open>
  C7 as stated fails: \<open>add_message\<close> checks nothing, so appending a system Message after a
  user Message leaves a system Message at index 1.
\<close>

theorem system_slot_invariant_broken_by_add:
  "messages (run_memory_ops
      [Add_message (user_message ''hi''), Add_message (system_message ''A'')] init_memory)
     = [user_message ''hi'', system_message ''A''] \<and>
   \<not> system_slot_inv (messages (run_memory_ops
      [Add_message (user_message ''hi''), Add_message (system_message ''A'')] init_memory))"
  by (simp add: system_slot_inv_tl run_memory_ops_def add_message_def init_memory_def
      is_system_def system_message_def)

section \<open>The client: helper facts\<close>

lemmas demo_defs = invoke_def query_messages_def new_list_def make_llm_call_def
  make_tool_call_def load_arguments_def list_append_def model_dump_def tool_message_def
  user_message_def py_or_def truthy_def unknown_tool_def completion_def
  demo_loads_def ping_tool_def get_weather_tool_def demo_client_def scripted_def assistant_def
  request_def empty_world_def caller_world_def city_args_def Let_def

lemma make_llm_call_eq:
  "make_llm_call lib self r mn w
     = (completion lib self (length (llm_log w)) mn (heap w r), sent r w)"
  by (simp add: make_llm_call_def completion_def sent_def Let_def split: sum.splits list.splits)

lemma query_messages_logs:
  "query_messages q w = (Inr r, w0) \<Longrightarrow> llm_log w0 = llm_log w \<and> tool_log w0 = tool_log w"
  by (cases q) (auto simp: query_messages_def new_list_def)

lemma tool_loop_all_ok:
  "\<forall>tc \<in> set tcs. make_tool_call lib self tc = Inr (res tc) \<Longrightarrow>
   tool_loop lib self r tcs w
     = (None, batch_done r (map (\<lambda>tc. tool_message (res tc)) tcs) tcs w)"
proof (induction tcs arbitrary: w)
  case Nil
  then show ?case by (simp add: batch_done_def)
next
  case (Cons tc tcs)
  then show ?case
    by (simp add: batch_done_def list_append_def Let_def)
qed

lemma tool_loop_fails:
  "\<forall>tc \<in> set pre. make_tool_call lib self tc = Inr (res tc) \<Longrightarrow>
   make_tool_call lib self bad = Inl e \<Longrightarrow>
   tool_loop lib self r (pre @ bad # post) w
     = (Some e, batch_done r (map (\<lambda>tc. tool_message (res tc)) pre) (pre @ [bad]) w)"
proof (induction pre arbitrary: w)
  case Nil
  then show ?case by (simp add: batch_done_def)
next
  case (Cons tc tcs)
  then show ?case
    by (simp add: batch_done_def list_append_def Let_def)
qed

lemma tool_loop_None:
  "tool_loop lib self r tcs w = (None, w') \<Longrightarrow>
   \<exists>results. map (make_tool_call lib self) tcs = map Inr results \<and>
     w' = batch_done r (map tool_message results) tcs w"
proof (induction tcs arbitrary: w w')
  case Nil
  then show ?case by (simp add: batch_done_def)
next
  case (Cons tc tcs)
  show ?case
  proof (cases "make_tool_call lib self tc")
    case (Inl e)
    with Cons.prems show ?thesis by (simp add: Let_def)
  next
    case (Inr res)
    with Cons.prems have
      "tool_loop lib self r tcs
         (list_append r (tool_message res) (w\<lparr>tool_log := tool_log w @ [tc]\<rparr>)) = (None, w')"
      by (simp add: Let_def)
    from Cons.IH [OF this] obtain results where
      r: "map (make_tool_call lib self) tcs = map Inr results"
         "w' = batch_done r (map tool_message results) tcs
                 (list_append r (tool_message res) (w\<lparr>tool_log := tool_log w @ [tc]\<rparr>))"
      by blast
    have "map (make_tool_call lib self) (tc # tcs) = map Inr (res # results)"
      using Inr r(1) by simp
    moreover have "w' = batch_done r (map tool_message (res # results)) (tc # tcs) w"
      using r(2) by (simp add: batch_done_def list_append_def)
    ultimately show ?thesis by blast
  qed
qed

lemma tool_loop_keeps_log:
  "llm_log (snd (tool_loop lib self r tcs w)) = llm_log w"
  by (induction tcs arbitrary: w) (auto simp: Let_def list_append_def split: sum.splits)

lemma invoke_first_request:
  assumes "query_messages q w = (Inr r, w0)"
  shows "llm_log (snd (invoke lib self q mn v w)) ! length (llm_log w) = heap w0 r"
proof -
  note logs = query_messages_logs [OF assms]
  show ?thesis
  proof (cases "completion lib self (length (llm_log w)) mn (heap w0 r)")
    case (Inl e)
    then show ?thesis by (simp add: invoke_def assms make_llm_call_eq logs sent_def)
  next
    case (Inr first)
    show ?thesis
    proof (cases "cm_tool_calls (message first)")
      case None
      with Inr show ?thesis by (simp add: invoke_def assms make_llm_call_eq logs sent_def)
    next
      case (Some tcs)
      let ?w1 = "list_append r (model_dump (message first)) (sent r w0)"
      obtain e w2 where l: "tool_loop lib self r tcs ?w1 = (e, w2)"
        by (cases "tool_loop lib self r tcs ?w1") auto
      from Inr Some l have inv: "invoke lib self q mn v w
        = (case e of Some x \<Rightarrow> (Inl x, w2) | None \<Rightarrow> make_llm_call lib self r mn w2)"
        by (simp add: invoke_def assms make_llm_call_eq logs split: option.splits)
      from tool_loop_keeps_log [of lib self r tcs ?w1] l
      have k: "llm_log w2 = llm_log w @ [heap w0 r]"
        by (simp add: sent_def list_append_def logs)
      show ?thesis
        by (cases e) (simp_all add: inv k make_llm_call_eq sent_def nth_append)
    qed
  qed
qed

text \<open>The three ways through \<open>invoke\<close> once the first response is there.\<close>

lemma invoke_no_tool_calls:
  assumes "query_messages q w = (Inr r, w0)"
    and "completion lib self (length (llm_log w)) mn (heap w0 r) = Inr first"
    and "cm_tool_calls (message first) = None"
  shows "invoke lib self q mn v w = (Inr first, sent r w0)"
  using assms query_messages_logs [OF assms(1)]
  by (simp add: invoke_def make_llm_call_eq)

lemma invoke_batch_ok:
  assumes "query_messages q w = (Inr r, w0)"
    and "completion lib self (length (llm_log w)) mn (heap w0 r) = Inr first"
    and "cm_tool_calls (message first) = Some tcs"
    and "\<forall>tc \<in> set tcs. make_tool_call lib self tc = Inr (res tc)"
  shows "invoke lib self q mn v w
     = make_llm_call lib self r mn
         (batch_done r (map (\<lambda>tc. tool_message (res tc)) tcs) tcs
            (list_append r (model_dump (message first)) (sent r w0)))"
  using assms(2,3) query_messages_logs [OF assms(1)]
  by (simp add: invoke_def assms(1) make_llm_call_eq tool_loop_all_ok [OF assms(4)])

lemma invoke_batch_fails:
  assumes "query_messages q w = (Inr r, w0)"
    and "completion lib self (length (llm_log w)) mn (heap w0 r) = Inr first"
    and "cm_tool_calls (message first) = Some (pre @ bad # post)"
    and "\<forall>tc \<in> set pre. make_tool_call lib self tc = Inr (res tc)"
    and "make_tool_call lib self bad = Inl e"
  shows "invoke lib self q mn v w
     = (Inl e, batch_done r (map (\<lambda>tc. tool_message (res tc)) pre) (pre @ [bad])
                 (list_append r (model_dump (message first)) (sent r w0)))"
  using assms(2,3) query_messages_logs [OF assms(1)]
  by (simp add: invoke_def assms(1) make_llm_call_eq tool_loop_fails [OF assms(4,5)])

lemma invoke_log_bound:
  "length (llm_log (snd (invoke lib self q mn v w))) \<le> length (llm_log w) + 2"
proof (cases "query_messages q w")
  case (Pair x w0)
  show ?thesis
  proof (cases x)
    case (Inl e)
    with Pair show ?thesis by (simp add: invoke_def query_messages_def split: if_splits prod.splits)
  next
    case (Inr r)
    with Pair have q: "query_messages q w = (Inr r, w0)" by simp
    note logs = query_messages_logs [OF q]
    show ?thesis
    proof (cases "completion lib self (length (llm_log w)) mn (heap w0 r)")
      case (Inl e)
      then show ?thesis by (simp add: invoke_def q make_llm_call_eq logs sent_def)
    next
      case first: (Inr first)
      show ?thesis
      proof (cases "cm_tool_calls (message first)")
        case None
        with first show ?thesis by (simp add: invoke_def q make_llm_call_eq logs sent_def)
      next
        case (Some tcs)
        let ?w1 = "list_append r (model_dump (message first)) (sent r w0)"
        obtain e w2 where l: "tool_loop lib self r tcs ?w1 = (e, w2)"
          by (cases "tool_loop lib self r tcs ?w1") auto
        from first Some l have inv: "invoke lib self q mn v w
          = (case e of Some x \<Rightarrow> (Inl x, w2) | None \<Rightarrow> make_llm_call lib self r mn w2)"
          by (simp add: invoke_def q make_llm_call_eq logs split: option.splits)
        from tool_loop_keeps_log [of lib self r tcs ?w1] l
        have k: "llm_log w2 = llm_log w @ [heap w0 r]"
          by (simp add: sent_def list_append_def logs)
        show ?thesis
          by (cases e) (simp_all add: inv k make_llm_call_eq sent_def)
      qed
    qed
  qed
qed

lemma invoke_returned:
  assumes "invoke lib self q mn v w = (Inr result, w')"
  shows "\<exists>r w0 first.
     query_messages q w = (Inr r, w0) \<and>
     completion lib self (length (llm_log w)) mn (heap w0 r) = Inr first \<and>
     (case cm_tool_calls (message first) of
        None \<Rightarrow>
          result = first \<and> length (llm_log w') = length (llm_log w) + 1 \<and>
          tool_log w' = tool_log w \<and> heap w' = heap w0
      | Some tcs \<Rightarrow>
          (\<exists>results.
             map (make_tool_call lib self) tcs = map Inr results \<and>
             heap w' = (heap w0)(r := heap w0 r @ model_dump (message first) #
                                       map tool_message results)) \<and>
          tool_log w' = tool_log w @ tcs \<and>
          llm_log w' = llm_log w @ [heap w0 r, heap w' r] \<and>
          completion lib self (Suc (length (llm_log w))) mn (heap w' r) = Inr result)"
proof -
  from assms obtain r w0 where q: "query_messages q w = (Inr r, w0)"
    by (cases "query_messages q w"; cases "fst (query_messages q w)")
       (auto simp: invoke_def)
  note logs = query_messages_logs [OF q]
  from assms q obtain first where
    c: "completion lib self (length (llm_log w)) mn (heap w0 r) = Inr first"
    by (cases "completion lib self (length (llm_log w)) mn (heap w0 r)")
       (auto simp: invoke_def make_llm_call_eq logs)
  show ?thesis
  proof (cases "cm_tool_calls (message first)")
    case None
    from invoke_no_tool_calls [OF q c None, of v] assms
    have "result = first" "w' = sent r w0" by simp_all
    with q c None logs show ?thesis by (simp add: sent_def)
  next
    case (Some tcs)
    let ?w1 = "list_append r (model_dump (message first)) (sent r w0)"
    from assms q c Some obtain w2 where
      l: "tool_loop lib self r tcs ?w1 = (None, w2)" and
      m: "make_llm_call lib self r mn w2 = (Inr result, w')"
      by (cases "tool_loop lib self r tcs ?w1"; cases "fst (tool_loop lib self r tcs ?w1)")
         (auto simp: invoke_def make_llm_call_eq logs)
    from tool_loop_None [OF l] obtain results where
      ok: "map (make_tool_call lib self) tcs = map Inr results" and
      w2: "w2 = batch_done r (map tool_message results) tcs ?w1"
      by blast
    from m have res: "completion lib self (length (llm_log w2)) mn (heap w2 r) = Inr result"
      and w': "w' = sent r w2"
      by (simp_all add: make_llm_call_eq)
    have len: "length (llm_log w2) = Suc (length (llm_log w))"
      by (simp add: w2 batch_done_def list_append_def sent_def logs)
    have hp: "heap w' = (heap w0)(r := heap w0 r @ model_dump (message first) #
                                       map tool_message results)"
      by (simp add: w' w2 batch_done_def list_append_def sent_def)
    have same: "heap w' r = heap w2 r" by (simp add: w' sent_def)
    have tl: "tool_log w' = tool_log w @ tcs"
      by (simp add: w' w2 batch_done_def list_append_def sent_def logs)
    have ll: "llm_log w' = llm_log w @ [heap w0 r, heap w' r]"
      by (simp add: w' w2 batch_done_def list_append_def sent_def logs)
    from ok hp have ex: "\<exists>results.
             map (make_tool_call lib self) tcs = map Inr results \<and>
             heap w' = (heap w0)(r := heap w0 r @ model_dump (message first) #
                                       map tool_message results)"
      by blast
    from res len same have res': "completion lib self (Suc (length (llm_log w))) mn (heap w' r)
        = Inr result"
      by simp
    from q c Some ex tl ll res' show ?thesis by simp
  qed
qed

section \<open>The client: claims\<close>

text \<open>
  C8. The claim holds of a text query, of a list and of any other object, and the code
  aims at it for a single Message; but the test \<open>type(query) is Message\<close> is false of every
  Message, whose run-time type is \<open>dict\<close>, so \<open>invoke\<close> called with a single Message
  raises the \<open>ValueError\<close> of the last branch, before any request is made, where the
  claim has it wrapped into a one-element sequence.
\<close>

theorem invoke_single_Message_rejected:
  "invoke lib self (QMessage m) mn v w
     = (Inl (ValueError ''Parameter query is of wrong type!''), w)"
  by (simp add: invoke_def query_messages_def)

text \<open>
  The other three shapes of the query are normalized as C8 says: a text becomes a new
  one-element list with a user Message, which the first request sends; a list is used as
  it is; any other object raises before any request.
\<close>

lemma query_messages_cases:
  "query_messages (QStr s) w
     = (Inr (next_ref w),
        w\<lparr>heap := (heap w)(next_ref w := [user_message s]), next_ref := Suc (next_ref w)\<rparr>)"
  "query_messages (QList r) w = (Inr r, w)"
  "query_messages QOther w = (Inl (ValueError ''Parameter query is of wrong type!''), w)"
  "invoke lib self QOther mn v w = (Inl (ValueError ''Parameter query is of wrong type!''), w)"
  by (simp_all add: invoke_def query_messages_def new_list_def)

lemma invoke_text_query_first_request:
  "llm_log (snd (invoke lib self (QStr s) mn v w)) ! length (llm_log w) = [user_message s]"
  using invoke_first_request [OF query_messages_cases(1), of lib self s mn v w] by simp

text \<open>
  C5, as the code has it. \<open>_make_tool_call\<close> first decodes the raw arguments (an empty or
  absent payload is the empty mapping and is never an error; any other payload goes to
  \<open>json.loads\<close>, and its exception leaves the call whatever the tool name is); then it
  looks the tool name up and fails with the unknown-tool error if it is absent; then it
  calls the bound callable with the decoded arguments as keyword parameters (a decoded
  value that is not a mapping is a \<open>TypeError\<close>); then it returns the request's id, the
  tool name and the text of the callable's result.
\<close>

theorem make_tool_call_steps:
  "(\<forall>e. load_arguments lib (fn_arguments tc) = Inl e \<longrightarrow> make_tool_call lib self tc = Inl e) \<and>
   (\<forall>args. load_arguments lib (fn_arguments tc) = Inr args \<and>
        map_of (tools self) (fn_name tc) = None \<longrightarrow>
        make_tool_call lib self tc = Inl (unknown_tool (fn_name tc))) \<and>
   (\<forall>args t. load_arguments lib (fn_arguments tc) = Inr args \<and>
        map_of (tools self) (fn_name tc) = Some t \<longrightarrow>
        make_tool_call lib self tc
          = (case args of
               JObject kw \<Rightarrow>
                 (case func t kw of
                    Inl e \<Rightarrow> Inl e
                  | Inr v \<Rightarrow> Inr (tc_id tc, fn_name tc, py_str lib v))
             | _ \<Rightarrow> Inl TypeError)) \<and>
   (\<not> truthy (fn_arguments tc) \<longrightarrow> load_arguments lib (fn_arguments tc) = Inr (JObject [])) \<and>
   (\<forall>s. fn_arguments tc = Some s \<and> s \<noteq> [] \<longrightarrow>
        load_arguments lib (fn_arguments tc) = json_loads lib s)"
  by (auto simp: make_tool_call_def load_arguments_def truthy_def Let_def
      split: option.splits json.splits sum.splits)

theorem make_tool_call_steps_witness:
  "make_tool_call (scripted []) demo_client (request ''call_1'' ''get_weather'' (Some city_args))
     = Inr (''call_1'', ''get_weather'', ''Sunny, 22C'') \<and>
   make_tool_call (scripted []) demo_client (request ''call_2'' ''nope'' (Some ''{}''))
     = Inl (unknown_tool ''nope'') \<and>
   make_tool_call (scripted []) demo_client (request ''call_3'' ''ping'' (Some ''{''))
     = Inl JSONDecodeError \<and>
   load_arguments (scripted []) (fn_arguments (request ''call_4'' ''ping'' None))
     = Inr (JObject []) \<and>
   load_arguments (scripted []) (fn_arguments (request ''call_5'' ''ping'' (Some '''')))
     = Inr (JObject [])"
proof -
  let ?lib = "scripted [] :: (string, unit) library"
  let ?tc1 = "request ''call_1'' ''get_weather'' (Some city_args)"
  let ?tc2 = "request ''call_2'' ''nope'' (Some ''{}'')"
  let ?tc3 = "request ''call_3'' ''ping'' (Some ''{'')"
  let ?tc4 = "request ''call_4'' ''ping'' None"
  let ?tc5 = "request ''call_5'' ''ping'' (Some '''')"
  have js: "json_loads ?lib city_args = Inr (JObject [(''city'', JString ''Paris'')])"
    "json_loads ?lib ''{}'' = Inr (JObject [])" "json_loads ?lib ''{'' = Inl JSONDecodeError"
    by (simp_all add: scripted_def demo_loads_def city_args_def)
  have ne: "city_args \<noteq> []" by (simp add: city_args_def)
  have reg: "map_of (tools demo_client) (fn_name ?tc1) = Some get_weather_tool"
    "map_of (tools demo_client) (fn_name ?tc2) = None"
    by (simp_all add: demo_client_def request_def)
  have a1: "load_arguments ?lib (fn_arguments ?tc1) = Inr (JObject [(''city'', JString ''Paris'')])"
    using make_tool_call_steps [of ?lib ?tc1 demo_client] js(1) ne by (simp add: request_def)
  have r1: "make_tool_call ?lib demo_client ?tc1 = Inr (''call_1'', ''get_weather'', ''Sunny, 22C'')"
    using make_tool_call_steps [of ?lib ?tc1 demo_client] a1 reg(1)
    by (simp add: get_weather_tool_def request_def scripted_def)
  have a2: "load_arguments ?lib (fn_arguments ?tc2) = Inr (JObject [])"
    using make_tool_call_steps [of ?lib ?tc2 demo_client] js(2) by (simp add: request_def)
  have r2: "make_tool_call ?lib demo_client ?tc2 = Inl (unknown_tool ''nope'')"
    using make_tool_call_steps [of ?lib ?tc2 demo_client] a2 reg(2) by (simp add: request_def)
  have a3: "load_arguments ?lib (fn_arguments ?tc3) = Inl JSONDecodeError"
    using make_tool_call_steps [of ?lib ?tc3 demo_client] js(3) by (simp add: request_def)
  have r3: "make_tool_call ?lib demo_client ?tc3 = Inl JSONDecodeError"
    using make_tool_call_steps [of ?lib ?tc3 demo_client] a3 by simp
  have r4: "load_arguments ?lib (fn_arguments ?tc4) = Inr (JObject [])"
    using make_tool_call_steps [of ?lib ?tc4 demo_client] by (simp add: truthy_def request_def)
  have r5: "load_arguments ?lib (fn_arguments ?tc5) = Inr (JObject [])"
    using make_tool_call_steps [of ?lib ?tc5 demo_client] by (simp add: truthy_def request_def)
  from r1 r2 r3 r4 r5 show ?thesis by simp
qed

text \<open>
  C5 as stated fails: for a name that is not registered and the malformed payload \<open>{\<close>,
  the call ends in the decoder's error and not in the unknown-tool error.
\<close>

theorem make_tool_call_decodes_before_lookup:
  "map_of (tools demo_client) ''nope'' = None \<and>
   make_tool_call (scripted []) demo_client (request ''call_1'' ''nope'' (Some ''{''))
     = Inl JSONDecodeError \<and>
   make_tool_call (scripted []) demo_client (request ''call_1'' ''nope'' (Some ''{''))
     \<noteq> Inl (unknown_tool ''nope'')"
  by (simp add: demo_defs)

text \<open>
  C2, as the code has it. When the first response's \<open>tool_calls\<close> is \<open>None\<close>, \<open>invoke\<close>
  returns that response after exactly one request, with no tool dispatched and no list
  changed. When it is the empty list, the test \<open>is not None\<close> succeeds: the assistant
  Message is appended, no tool is dispatched, a second request is made with the extended
  sequence, and its outcome is what \<open>invoke\<close> returns.
\<close>

theorem invoke_single_round_trip:
  assumes "query_messages q w = (Inr r, w0)"
    and "completion lib self (length (llm_log w)) mn (heap w0 r) = Inr first"
  shows
    "(cm_tool_calls (message first) = None \<longrightarrow>
        fst (invoke lib self q mn v w) = Inr first \<and>
        llm_log (snd (invoke lib self q mn v w)) = llm_log w @ [heap w0 r] \<and>
        tool_log (snd (invoke lib self q mn v w)) = tool_log w \<and>
        heap (snd (invoke lib self q mn v w)) = heap w0) \<and>
     (cm_tool_calls (message first) = Some [] \<longrightarrow>
        fst (invoke lib self q mn v w)
          = completion lib self (Suc (length (llm_log w))) mn
              (heap w0 r @ [model_dump (message first)]) \<and>
        llm_log (snd (invoke lib self q mn v w))
          = llm_log w @ [heap w0 r, heap w0 r @ [model_dump (message first)]] \<and>
        tool_log (snd (invoke lib self q mn v w)) = tool_log w \<and>
        heap (snd (invoke lib self q mn v w)) r = heap w0 r @ [model_dump (message first)])"
proof (intro conjI impI)
  assume n: "cm_tool_calls (message first) = None"
  note eq = invoke_no_tool_calls [OF assms n, of v]
  note logs = query_messages_logs [OF assms(1)]
  show "fst (invoke lib self q mn v w) = Inr first" by (simp add: eq)
  show "llm_log (snd (invoke lib self q mn v w)) = llm_log w @ [heap w0 r]"
    by (simp add: eq sent_def logs)
  show "tool_log (snd (invoke lib self q mn v w)) = tool_log w"
    by (simp add: eq sent_def logs)
  show "heap (snd (invoke lib self q mn v w)) = heap w0"
    by (simp add: eq sent_def)
next
  assume e: "cm_tool_calls (message first) = Some []"
  have ok: "\<forall>tc \<in> set ([] :: tool_call list). make_tool_call lib self tc = Inr (undefined tc)"
    by simp
  note eq = invoke_batch_ok [OF assms e ok, of v]
  note logs = query_messages_logs [OF assms(1)]
  show "fst (invoke lib self q mn v w)
          = completion lib self (Suc (length (llm_log w))) mn
              (heap w0 r @ [model_dump (message first)])"
    by (simp add: eq make_llm_call_eq batch_done_def list_append_def sent_def logs)
  show "llm_log (snd (invoke lib self q mn v w))
          = llm_log w @ [heap w0 r, heap w0 r @ [model_dump (message first)]]"
    by (simp add: eq make_llm_call_eq batch_done_def list_append_def sent_def logs)
  show "tool_log (snd (invoke lib self q mn v w)) = tool_log w"
    by (simp add: eq make_llm_call_eq batch_done_def list_append_def sent_def logs)
  show "heap (snd (invoke lib self q mn v w)) r = heap w0 r @ [model_dump (message first)]"
    by (simp add: eq make_llm_call_eq batch_done_def list_append_def sent_def logs)
qed

text \<open>
  Scenario A of the specification, the query 2+2? answered 4 with no tool calls; and the
  same answer given after a first response whose \<open>tool_calls\<close> is the empty list.
\<close>

theorem invoke_single_round_trip_witness:
  "fst (invoke (scripted [assistant (Some ''4'') None]) demo_client (QStr ''2+2?'') None False
          empty_world) = Inr (assistant (Some ''4'') None) \<and>
   llm_log (snd (invoke (scripted [assistant (Some ''4'') None]) demo_client (QStr ''2+2?'') None
          False empty_world)) = [[user_message ''2+2?'']] \<and>
   tool_log (snd (invoke (scripted [assistant (Some ''4'') None]) demo_client (QStr ''2+2?'') None
          False empty_world)) = [] \<and>
   fst (invoke (scripted [assistant None (Some []), assistant (Some ''4'') None]) demo_client
          (QStr ''2+2?'') None False empty_world) = Inr (assistant (Some ''4'') None) \<and>
   llm_log (snd (invoke (scripted [assistant None (Some []), assistant (Some ''4'') None])
          demo_client (QStr ''2+2?'') None False empty_world))
     = [[user_message ''2+2?''],
        [user_message ''2+2?'', model_dump (message (assistant None (Some [])))]]"
proof -
  let ?w0 = "empty_world\<lparr>heap := (heap empty_world)(0 := [user_message ''2+2?'']), next_ref := 1\<rparr>"
  let ?four = "assistant (Some ''4'') None"
  let ?none = "assistant None (Some [])"
  have q: "query_messages (QStr ''2+2?'') empty_world = (Inr 0, ?w0)"
    by (simp add: query_messages_def new_list_def empty_world_def)
  have c: "completion (scripted [?four]) demo_client
             (length (llm_log empty_world)) None (heap ?w0 0) = Inr ?four"
    by (simp add: completion_def scripted_def empty_world_def)
  have n: "cm_tool_calls (message ?four) = None"
    by (simp add: assistant_def)
  have c': "completion (scripted [?none, ?four]) demo_client
             (length (llm_log empty_world)) None (heap ?w0 0) = Inr ?none"
    by (simp add: completion_def scripted_def empty_world_def)
  have e: "cm_tool_calls (message ?none) = Some []"
    by (simp add: assistant_def)
  have c2: "completion (scripted [?none, ?four]) demo_client (Suc 0) None
              [user_message ''2+2?'', model_dump (message ?none)] = Inr ?four"
    by (simp add: completion_def scripted_def)
  from invoke_single_round_trip [OF q c, of False] n
  have one: "fst (invoke (scripted [?four]) demo_client (QStr ''2+2?'') None False empty_world)
               = Inr ?four"
    "llm_log (snd (invoke (scripted [?four]) demo_client (QStr ''2+2?'') None False empty_world))
               = [[user_message ''2+2?'']]"
    "tool_log (snd (invoke (scripted [?four]) demo_client (QStr ''2+2?'') None False empty_world))
               = []"
    by (simp_all add: empty_world_def)
  from invoke_single_round_trip [OF q c', of False] e c2
  have two: "fst (invoke (scripted [?none, ?four]) demo_client (QStr ''2+2?'') None False
                empty_world) = Inr ?four"
    "llm_log (snd (invoke (scripted [?none, ?four]) demo_client (QStr ''2+2?'') None False
                empty_world))
       = [[user_message ''2+2?''], [user_message ''2+2?'', model_dump (message ?none)]]"
    by (simp_all add: empty_world_def)
  from one two show ?thesis by simp
qed

text \<open>
  C2 as stated fails: a first response whose \<open>tool_calls\<close> is the empty list is not
  returned; two requests are made and the second response is returned.
\<close>

theorem invoke_empty_tool_calls_second_request:
  "completion (scripted [assistant (Some ''4'') (Some []), assistant (Some ''four'') None])
      demo_client 0 None [user_message ''2+2?''] = Inr (assistant (Some ''4'') (Some [])) \<and>
   cm_tool_calls (message (assistant (Some ''4'') (Some []))) = Some [] \<and>
   fst (invoke (scripted [assistant (Some ''4'') (Some []), assistant (Some ''four'') None])
          demo_client (QStr ''2+2?'') None False empty_world)
     = Inr (assistant (Some ''four'') None) \<and>
   assistant (Some ''four'') None \<noteq> assistant (Some ''4'') (Some []) \<and>
   length (llm_log (snd (invoke
          (scripted [assistant (Some ''4'') (Some []), assistant (Some ''four'') None])
          demo_client (QStr ''2+2?'') None False empty_world))) = 2"
  by (simp add: demo_defs)

text \<open>
  C1, as the code has it. \<open>invoke\<close> has no loop. When the first response's \<open>tool_calls\<close>
  is not \<open>None\<close> and every request of it is resolved, \<open>invoke\<close> makes exactly one more
  request, with the sequence extended by the assistant Message and the tool-result
  Messages, and returns the outcome of that second request as it is, whether or not the
  second response carries tool-call requests; two requests are made in all.
\<close>

theorem invoke_returns_second_response:
  assumes "query_messages q w = (Inr r, w0)"
    and "completion lib self (length (llm_log w)) mn (heap w0 r) = Inr first"
    and "cm_tool_calls (message first) = Some tcs"
    and "\<forall>tc \<in> set tcs. make_tool_call lib self tc = Inr (res tc)"
  shows
    "fst (invoke lib self q mn v w)
       = completion lib self (Suc (length (llm_log w))) mn
           (heap w0 r @ model_dump (message first) # map (\<lambda>tc. tool_message (res tc)) tcs) \<and>
     length (llm_log (snd (invoke lib self q mn v w))) = length (llm_log w) + 2 \<and>
     last (llm_log (snd (invoke lib self q mn v w)))
       = heap w0 r @ model_dump (message first) # map (\<lambda>tc. tool_message (res tc)) tcs"
proof -
  note eq = invoke_batch_ok [OF assms, of v]
  note logs = query_messages_logs [OF assms(1)]
  show ?thesis
    by (simp add: eq make_llm_call_eq batch_done_def list_append_def sent_def logs)
qed

theorem invoke_returns_second_response_witness:
  "fst (invoke (scripted [assistant None (Some [request ''call_1'' ''ping'' None]),
                          assistant (Some ''done'') None])
          demo_client (QStr ''hi'') None False empty_world) = Inr (assistant (Some ''done'') None) \<and>
   length (llm_log (snd (invoke (scripted [assistant None (Some [request ''call_1'' ''ping'' None]),
                          assistant (Some ''done'') None])
          demo_client (QStr ''hi'') None False empty_world))) = 2"
proof -
  let ?first = "assistant None (Some [request ''call_1'' ''ping'' None])"
  let ?lib = "scripted [?first, assistant (Some ''done'') None]"
  let ?w0 = "empty_world\<lparr>heap := (heap empty_world)(0 := [user_message ''hi'']), next_ref := 1\<rparr>"
  have q: "query_messages (QStr ''hi'') empty_world = (Inr 0, ?w0)"
    by (simp add: query_messages_def new_list_def empty_world_def)
  have c: "completion ?lib demo_client (length (llm_log empty_world)) None (heap ?w0 0) = Inr ?first"
    by (simp add: completion_def scripted_def empty_world_def)
  have t: "cm_tool_calls (message ?first) = Some [request ''call_1'' ''ping'' None]"
    by (simp add: assistant_def)
  have d: "\<forall>tc \<in> set [request ''call_1'' ''ping'' None].
             make_tool_call ?lib demo_client tc = Inr ((\<lambda>tc. (''call_1'', ''ping'', ''pong'')) tc)"
    by (simp add: make_tool_call_def load_arguments_def request_def demo_client_def
        ping_tool_def scripted_def)
  from invoke_returns_second_response [OF q c t d, of False] show ?thesis
    by (simp add: completion_def scripted_def empty_world_def)
qed

text \<open>
  C1 as stated fails: when the second response requests a tool again, \<open>invoke\<close> returns
  it after two requests, with only the first batch dispatched; the round is not repeated.
\<close>

theorem invoke_returns_response_with_tool_calls:
  "fst (invoke (scripted [assistant None (Some [request ''call_1'' ''ping'' None]),
                          assistant None (Some [request ''call_2'' ''ping'' None]),
                          assistant (Some ''done'') None])
          demo_client (QStr ''hi'') None False empty_world)
     = Inr (assistant None (Some [request ''call_2'' ''ping'' None])) \<and>
   cm_tool_calls (message (assistant None (Some [request ''call_2'' ''ping'' None])))
     = Some [request ''call_2'' ''ping'' None] \<and>
   length (llm_log (snd (invoke (scripted [assistant None (Some [request ''call_1'' ''ping'' None]),
                          assistant None (Some [request ''call_2'' ''ping'' None]),
                          assistant (Some ''done'') None])
          demo_client (QStr ''hi'') None False empty_world))) = 2 \<and>
   tool_log (snd (invoke (scripted [assistant None (Some [request ''call_1'' ''ping'' None]),
                          assistant None (Some [request ''call_2'' ''ping'' None]),
                          assistant (Some ''done'') None])
          demo_client (QStr ''hi'') None False empty_world)) = [request ''call_1'' ''ping'' None]"
  by (simp add: demo_defs)

text \<open>
  C3, as the code has it. Let the first response request the tool calls \<open>tcs\<close>, each
  naming a registered tool, with raw arguments that are empty, absent or decode to a
  mapping, on which the tool's callable returns normally. Then the list of the
  conversation receives the assistant's Message followed by one tool-result Message for
  each request, in the order of the requests, the one for request \<open>tc\<close> having role
  \<open>tool\<close>, \<open>tool_call_id\<close> the id of \<open>tc\<close>, \<open>name\<close> its tool name and \<open>content\<close> the text of
  the callable's result; and the second request is sent with exactly this sequence.
\<close>

theorem invoke_appends_tool_results:
  assumes "query_messages q w = (Inr r, w0)"
    and "completion lib self (length (llm_log w)) mn (heap w0 r) = Inr first"
    and "cm_tool_calls (message first) = Some tcs"
    and "\<forall>tc \<in> set tcs. \<exists>t kw v.
           map_of (tools self) (fn_name tc) = Some t \<and>
           load_arguments lib (fn_arguments tc) = Inr (JObject kw) \<and>
           func t kw = Inr v \<and> text tc = py_str lib v"
  shows
    "heap (snd (invoke lib self q mn v w)) r
       = heap w0 r @ model_dump (message first) #
           map (\<lambda>tc. \<lparr>role = ''tool'', content = Some (text tc), tool_call_id = Some (tc_id tc),
                       name = Some (fn_name tc), tool_calls = None\<rparr>) tcs \<and>
     llm_log (snd (invoke lib self q mn v w))
       = llm_log w @ [heap w0 r,
           heap w0 r @ model_dump (message first) #
             map (\<lambda>tc. \<lparr>role = ''tool'', content = Some (text tc), tool_call_id = Some (tc_id tc),
                         name = Some (fn_name tc), tool_calls = None\<rparr>) tcs] \<and>
     tool_log (snd (invoke lib self q mn v w)) = tool_log w @ tcs"
proof -
  have ok: "\<forall>tc \<in> set tcs. make_tool_call lib self tc = Inr (tc_id tc, fn_name tc, text tc)"
  proof
    fix tc assume "tc \<in> set tcs"
    with assms(4) obtain t kw v where
      "map_of (tools self) (fn_name tc) = Some t"
      "load_arguments lib (fn_arguments tc) = Inr (JObject kw)"
      "func t kw = Inr v" "text tc = py_str lib v"
      by blast
    then show "make_tool_call lib self tc = Inr (tc_id tc, fn_name tc, text tc)"
      by (simp add: make_tool_call_def)
  qed
  note eq = invoke_batch_ok [OF assms(1,2,3) ok, of v]
  note logs = query_messages_logs [OF assms(1)]
  show ?thesis
    by (simp add: eq make_llm_call_eq batch_done_def list_append_def sent_def logs
        tool_message_def)
qed


text \<open>Scenario B of the specification: one call of \<open>get_weather\<close> for Paris.\<close>

theorem invoke_appends_tool_results_witness:
  "heap (snd (invoke (scripted [assistant None
                         (Some [request ''call_1'' ''get_weather'' (Some city_args)]),
                       assistant (Some ''It is sunny in Paris.'') None])
          demo_client (QStr ''What is the weather in Paris?'') None False empty_world)) 0
     = [user_message ''What is the weather in Paris?'',
        model_dump (message (assistant None
           (Some [request ''call_1'' ''get_weather'' (Some city_args)]))),
        \<lparr>role = ''tool'', content = Some ''Sunny, 22C'', tool_call_id = Some ''call_1'',
         name = Some ''get_weather'', tool_calls = None\<rparr>] \<and>
   last (llm_log (snd (invoke (scripted [assistant None
                         (Some [request ''call_1'' ''get_weather'' (Some city_args)]),
                       assistant (Some ''It is sunny in Paris.'') None])
          demo_client (QStr ''What is the weather in Paris?'') None False empty_world)))
     = [user_message ''What is the weather in Paris?'',
        model_dump (message (assistant None
           (Some [request ''call_1'' ''get_weather'' (Some city_args)]))),
        \<lparr>role = ''tool'', content = Some ''Sunny, 22C'', tool_call_id = Some ''call_1'',
         name = Some ''get_weather'', tool_calls = None\<rparr>]"
proof -
  let ?tc = "request ''call_1'' ''get_weather'' (Some city_args)"
  let ?first = "assistant None (Some [?tc])"
  let ?lib = "scripted [?first, assistant (Some ''It is sunny in Paris.'') None]"
  let ?q = "''What is the weather in Paris?''"
  let ?w0 = "empty_world\<lparr>heap := (heap empty_world)(0 := [user_message ?q]), next_ref := 1\<rparr>"
  have q: "query_messages (QStr ?q) empty_world = (Inr 0, ?w0)"
    by (simp add: query_messages_def new_list_def empty_world_def)
  have c: "completion ?lib demo_client (length (llm_log empty_world)) None (heap ?w0 0) = Inr ?first"
    by (simp add: completion_def scripted_def empty_world_def)
  have t: "cm_tool_calls (message ?first) = Some [?tc]"
    by (simp add: assistant_def)
  have "map_of (tools demo_client) (fn_name ?tc) = Some get_weather_tool \<and>
        load_arguments ?lib (fn_arguments ?tc) = Inr (JObject [(''city'', JString ''Paris'')]) \<and>
        func get_weather_tool [(''city'', JString ''Paris'')] = Inr ''Sunny, 22C'' \<and>
        (\<lambda>tc. ''Sunny, 22C'') ?tc = py_str ?lib ''Sunny, 22C''"
    by (simp add: demo_client_def request_def load_arguments_def scripted_def demo_loads_def
        city_args_def get_weather_tool_def)
  then have d: "\<forall>tc \<in> set [?tc]. \<exists>t kw v.
           map_of (tools demo_client) (fn_name tc) = Some t \<and>
           load_arguments ?lib (fn_arguments tc) = Inr (JObject kw) \<and>
           func t kw = Inr v \<and> (\<lambda>tc. ''Sunny, 22C'') tc = py_str ?lib v"
    by (metis empty_iff empty_set set_ConsD)
  from invoke_appends_tool_results [OF q c t d, of False] show ?thesis
    by (simp add: empty_world_def request_def)
qed

text \<open>
  C3 as stated fails: \<open>ping\<close> is registered and its callable returns normally on every
  call, but the request carries the malformed payload \<open>{\<close>. The decoder's error leaves
  \<open>invoke\<close>: no tool-result Message follows the assistant's Message, and there is no
  second request.
\<close>

theorem invoke_malformed_arguments_abort:
  "map_of (tools demo_client) ''ping'' = Some ping_tool \<and>
   func ping_tool [] = Inr ''pong'' \<and>
   fst (invoke (scripted [assistant None (Some [request ''call_1'' ''ping'' (Some ''{'')]),
                          assistant (Some ''done'') None])
          demo_client (QStr ''hi'') None False empty_world) = Inl JSONDecodeError \<and>
   heap (snd (invoke (scripted [assistant None (Some [request ''call_1'' ''ping'' (Some ''{'')]),
                          assistant (Some ''done'') None])
          demo_client (QStr ''hi'') None False empty_world)) 0
     = [user_message ''hi'',
        model_dump (message (assistant None (Some [request ''call_1'' ''ping'' (Some ''{'')])))] \<and>
   length (llm_log (snd (invoke
          (scripted [assistant None (Some [request ''call_1'' ''ping'' (Some ''{'')]),
                     assistant (Some ''done'') None])
          demo_client (QStr ''hi'') None False empty_world))) = 1"
  by (simp add: demo_defs)

text \<open>
  C4, as the code has it. Let the requests before \<open>bad\<close> be resolved normally, and let
  \<open>bad\<close> name a tool that is not registered and carry arguments that are empty, absent or
  decode. Then \<open>invoke\<close> aborts with the unknown-tool error when it reaches \<open>bad\<close>; no
  second request is made and the requests after \<open>bad\<close> are not dispatched; the Messages
  appended are the assistant's Message and the tool-result Messages of the requests
  before \<open>bad\<close>, so none beyond the assistant's Message when \<open>bad\<close> is the first request.
\<close>

theorem invoke_unknown_tool_aborts:
  assumes "query_messages q w = (Inr r, w0)"
    and "completion lib self (length (llm_log w)) mn (heap w0 r) = Inr first"
    and "cm_tool_calls (message first) = Some (pre @ bad # post)"
    and "\<forall>tc \<in> set pre. make_tool_call lib self tc = Inr (res tc)"
    and "load_arguments lib (fn_arguments bad) = Inr args"
    and "map_of (tools self) (fn_name bad) = None"
  shows
    "fst (invoke lib self q mn v w) = Inl (unknown_tool (fn_name bad)) \<and>
     heap (snd (invoke lib self q mn v w)) r
       = heap w0 r @ model_dump (message first) # map (\<lambda>tc. tool_message (res tc)) pre \<and>
     llm_log (snd (invoke lib self q mn v w)) = llm_log w @ [heap w0 r] \<and>
     tool_log (snd (invoke lib self q mn v w)) = tool_log w @ pre @ [bad]"
proof -
  have bad: "make_tool_call lib self bad = Inl (unknown_tool (fn_name bad))"
    using assms(5,6) by (simp add: make_tool_call_def)
  note eq = invoke_batch_fails [OF assms(1,2,3,4) bad, of v]
  note logs = query_messages_logs [OF assms(1)]
  show ?thesis
    by (simp add: eq batch_done_def list_append_def sent_def logs)
qed

theorem invoke_unknown_tool_aborts_witness:
  "fst (invoke (scripted [assistant None
                   (Some [request ''call_1'' ''get_weather'' (Some city_args),
                          request ''call_2'' ''nope'' (Some ''{}''),
                          request ''call_3'' ''ping'' None])])
          demo_client (QStr ''hi'') None False empty_world) = Inl (unknown_tool ''nope'') \<and>
   length (heap (snd (invoke (scripted [assistant None
                   (Some [request ''call_1'' ''get_weather'' (Some city_args),
                          request ''call_2'' ''nope'' (Some ''{}''),
                          request ''call_3'' ''ping'' None])])
          demo_client (QStr ''hi'') None False empty_world)) 0) = 3 \<and>
   length (llm_log (snd (invoke (scripted [assistant None
                   (Some [request ''call_1'' ''get_weather'' (Some city_args),
                          request ''call_2'' ''nope'' (Some ''{}''),
                          request ''call_3'' ''ping'' None])])
          demo_client (QStr ''hi'') None False empty_world))) = 1"
proof -
  let ?pre = "[request ''call_1'' ''get_weather'' (Some city_args)]"
  let ?bad = "request ''call_2'' ''nope'' (Some ''{}'')"
  let ?post = "[request ''call_3'' ''ping'' None]"
  let ?first = "assistant None (Some (?pre @ ?bad # ?post))"
  let ?lib = "scripted [?first]"
  let ?w0 = "empty_world\<lparr>heap := (heap empty_world)(0 := [user_message ''hi'']), next_ref := 1\<rparr>"
  have q: "query_messages (QStr ''hi'') empty_world = (Inr 0, ?w0)"
    by (simp add: query_messages_def new_list_def empty_world_def)
  have c: "completion ?lib demo_client (length (llm_log empty_world)) None (heap ?w0 0) = Inr ?first"
    by (simp add: completion_def scripted_def empty_world_def)
  have t: "cm_tool_calls (message ?first) = Some (?pre @ ?bad # ?post)"
    by (simp add: assistant_def)
  have d: "\<forall>tc \<in> set ?pre. make_tool_call ?lib demo_client tc
             = Inr ((\<lambda>tc. (''call_1'', ''get_weather'', ''Sunny, 22C'')) tc)"
    by (simp add: make_tool_call_def load_arguments_def request_def demo_client_def
        get_weather_tool_def scripted_def demo_loads_def city_args_def)
  have a: "load_arguments ?lib (fn_arguments ?bad) = Inr (JObject [])"
    by (simp add: load_arguments_def request_def scripted_def demo_loads_def)
  have n: "map_of (tools demo_client) (fn_name ?bad) = None"
    by (simp add: demo_client_def request_def)
  from invoke_unknown_tool_aborts [OF q c t d a n, of False] show ?thesis
    by (simp add: empty_world_def request_def)
qed

text \<open>
  C4 as stated fails: when a registered tool is requested before the unknown one, its
  tool-result Message has been appended after the assistant's Message by the time
  \<open>invoke\<close> aborts.
\<close>

theorem invoke_unknown_tool_after_tool_result:
  "fst (invoke (scripted [assistant None
                   (Some [request ''call_1'' ''ping'' None, request ''call_2'' ''nope'' None])])
          demo_client (QStr ''hi'') None False empty_world) = Inl (unknown_tool ''nope'') \<and>
   heap (snd (invoke (scripted [assistant None
                   (Some [request ''call_1'' ''ping'' None, request ''call_2'' ''nope'' None])])
          demo_client (QStr ''hi'') None False empty_world)) 0
     = [user_message ''hi'',
        model_dump (message (assistant None
           (Some [request ''call_1'' ''ping'' None, request ''call_2'' ''nope'' None]))),
        \<lparr>role = ''tool'', content = Some ''pong'', tool_call_id = Some ''call_1'',
         name = Some ''ping'', tool_calls = None\<rparr>]"
  by (simp add: demo_defs)

text \<open>
  C9. No call of \<open>invoke\<close> makes more than two requests to the model, however it ends.
  Whenever it returns a response, the conversation list \<open>r\<close> and the first response
  \<open>first\<close> exist. If the \<open>tool_calls\<close> of \<open>first\<close> is \<open>None\<close>, the result is \<open>first\<close>,
  after one request, with no dispatch and no list changed. If it is not \<open>None\<close>, exactly
  the requests of that one batch were dispatched, in order: each of them was resolved by
  \<open>_make_tool_call\<close>, and the conversation list received the assistant Message and the
  tool-result Messages of these results, no other list being changed; two requests were
  made, the second with that final list, and the result is the second response as the
  model gave it, whatever its own \<open>tool_calls\<close> is.
\<close>

theorem invoke_at_most_two_model_calls:
  "length (llm_log (snd (invoke lib self q mn v w))) \<le> length (llm_log w) + 2 \<and>
   (\<forall>result w'. invoke lib self q mn v w = (Inr result, w') \<longrightarrow>
      (\<exists>r w0 first.
         query_messages q w = (Inr r, w0) \<and>
         completion lib self (length (llm_log w)) mn (heap w0 r) = Inr first \<and>
         (case cm_tool_calls (message first) of
            None \<Rightarrow>
              result = first \<and> length (llm_log w') = length (llm_log w) + 1 \<and>
              tool_log w' = tool_log w \<and> heap w' = heap w0
          | Some tcs \<Rightarrow>
              (\<exists>results.
                 map (make_tool_call lib self) tcs = map Inr results \<and>
                 heap w' = (heap w0)(r := heap w0 r @ model_dump (message first) #
                                           map tool_message results)) \<and>
              tool_log w' = tool_log w @ tcs \<and>
              llm_log w' = llm_log w @ [heap w0 r, heap w' r] \<and>
              completion lib self (Suc (length (llm_log w))) mn (heap w' r) = Inr result)))"
proof (intro conjI allI impI)
  show "length (llm_log (snd (invoke lib self q mn v w))) \<le> length (llm_log w) + 2"
    by (rule invoke_log_bound)
next
  fix result w'
  assume "invoke lib self q mn v w = (Inr result, w')"
  from invoke_returned [OF this]
  show "\<exists>r w0 first.
         query_messages q w = (Inr r, w0) \<and>
         completion lib self (length (llm_log w)) mn (heap w0 r) = Inr first \<and>
         (case cm_tool_calls (message first) of
            None \<Rightarrow>
              result = first \<and> length (llm_log w') = length (llm_log w) + 1 \<and>
              tool_log w' = tool_log w \<and> heap w' = heap w0
          | Some tcs \<Rightarrow>
              (\<exists>results.
                 map (make_tool_call lib self) tcs = map Inr results \<and>
                 heap w' = (heap w0)(r := heap w0 r @ model_dump (message first) #
                                           map tool_message results)) \<and>
              tool_log w' = tool_log w @ tcs \<and>
              llm_log w' = llm_log w @ [heap w0 r, heap w' r] \<and>
              completion lib self (Suc (length (llm_log w))) mn (heap w' r) = Inr result)"
    by blast
qed

theorem invoke_at_most_two_model_calls_witness:
  "fst (invoke (scripted [assistant None (Some [request ''call_1'' ''ping'' (Some ''{}'')]),
                          assistant None (Some [request ''call_2'' ''ping'' (Some ''{}'')]),
                          assistant (Some ''done'') None])
          demo_client (QStr ''hi'') None False empty_world)
     = Inr (assistant None (Some [request ''call_2'' ''ping'' (Some ''{}'')])) \<and>
   length (llm_log (snd (invoke
          (scripted [assistant None (Some [request ''call_1'' ''ping'' (Some ''{}'')]),
                     assistant None (Some [request ''call_2'' ''ping'' (Some ''{}'')]),
                     assistant (Some ''done'') None])
          demo_client (QStr ''hi'') None False empty_world))) \<le> 2 \<and>
   tool_log (snd (invoke
          (scripted [assistant None (Some [request ''call_1'' ''ping'' (Some ''{}'')]),
                     assistant None (Some [request ''call_2'' ''ping'' (Some ''{}'')]),
                     assistant (Some ''done'') None])
          demo_client (QStr ''hi'') None False empty_world))
     = [request ''call_1'' ''ping'' (Some ''{}'')] \<and>
   heap (snd (invoke
          (scripted [assistant None (Some [request ''call_1'' ''ping'' (Some ''{}'')]),
                     assistant None (Some [request ''call_2'' ''ping'' (Some ''{}'')]),
                     assistant (Some ''done'') None])
          demo_client (QStr ''hi'') None False empty_world)) 0
     = [user_message ''hi'',
        model_dump (message (assistant None (Some [request ''call_1'' ''ping'' (Some ''{}'')]))),
        tool_message (''call_1'', ''ping'', ''pong'')]"
proof -
  let ?tc = "request ''call_1'' ''ping'' (Some ''{}'')"
  let ?first = "assistant None (Some [?tc])"
  let ?second = "assistant None (Some [request ''call_2'' ''ping'' (Some ''{}'')])"
  let ?lib = "scripted [?first, ?second, assistant (Some ''done'') None]"
  let ?run = "invoke ?lib demo_client (QStr ''hi'') None False empty_world"
  let ?w0 = "empty_world\<lparr>heap := (heap empty_world)(0 := [user_message ''hi'']), next_ref := 1\<rparr>"
  have f: "fst ?run = Inr ?second"
    by (simp add: demo_defs)
  then have run: "?run = (Inr ?second, snd ?run)"
    by (metis prod.collapse)
  note th = invoke_at_most_two_model_calls
    [of ?lib demo_client "QStr ''hi''" None False empty_world]
  from th have bound: "length (llm_log (snd ?run)) \<le> length (llm_log empty_world) + 2"
    by blast
  from th run obtain r w0 first where
    q: "query_messages (QStr ''hi'') empty_world = (Inr r, w0)" and
    c: "completion ?lib demo_client (length (llm_log empty_world)) None (heap w0 r) = Inr first" and
    rest: "(case cm_tool_calls (message first) of
            None \<Rightarrow>
              ?second = first \<and> length (llm_log (snd ?run)) = length (llm_log empty_world) + 1 \<and>
              tool_log (snd ?run) = tool_log empty_world \<and> heap (snd ?run) = heap w0
          | Some tcs \<Rightarrow>
              (\<exists>results.
                 map (make_tool_call ?lib demo_client) tcs = map Inr results \<and>
                 heap (snd ?run) = (heap w0)(r := heap w0 r @ model_dump (message first) #
                                           map tool_message results)) \<and>
              tool_log (snd ?run) = tool_log empty_world @ tcs \<and>
              llm_log (snd ?run) = llm_log empty_world @ [heap w0 r, heap (snd ?run) r] \<and>
              completion ?lib demo_client (Suc (length (llm_log empty_world))) None
                 (heap (snd ?run) r) = Inr ?second)"
    by blast
  from q have r: "r = 0" and w0: "w0 = ?w0"
    by (simp_all add: query_messages_def new_list_def empty_world_def)
  from c have first: "first = ?first"
    by (simp add: completion_def scripted_def empty_world_def r w0)
  have tcs: "cm_tool_calls (message ?first) = Some [?tc]"
    by (simp add: assistant_def)
  note rest' = rest [unfolded first tcs option.case r w0]
  from rest' obtain results where
    m: "map (make_tool_call ?lib demo_client) [?tc] = map Inr results" and
    h: "heap (snd ?run) = (heap ?w0)(0 := heap ?w0 0 @ model_dump (message ?first) #
                                           map tool_message results)" and
    t: "tool_log (snd ?run) = tool_log empty_world @ [?tc]"
    by blast
  have "make_tool_call ?lib demo_client ?tc = Inr (''call_1'', ''ping'', ''pong'')"
    by (simp add: make_tool_call_def load_arguments_def request_def demo_client_def
        ping_tool_def scripted_def demo_loads_def)
  with m have "results = [(''call_1'', ''ping'', ''pong'')]"
    by (cases results) auto
  with h have hp: "heap (snd ?run) 0 = [user_message ''hi'', model_dump (message ?first),
        tool_message (''call_1'', ''ping'', ''pong'')]"
    by (simp add: empty_world_def)
  from f bound t hp show ?thesis by (simp add: empty_world_def)
qed

text \<open>
  C10, as the code has it. Called with a list, \<open>invoke\<close> allocates nothing and sends the
  caller's own list with the first request. If the first response's \<open>tool_calls\<close> is
  \<open>None\<close>, every list is left as it was. If it is not \<open>None\<close> (the empty list included) and
  every request is resolved, the caller's list has the assistant Message and then the
  tool-result Messages appended, and no other list is changed.
\<close>

theorem invoke_list_query_in_place:
  assumes "completion lib self (length (llm_log w)) mn (heap w r) = Inr first"
  shows
    "llm_log (snd (invoke lib self (QList r) mn v w)) ! length (llm_log w) = heap w r \<and>
     next_ref (snd (invoke lib self (QList r) mn v w)) = next_ref w \<and>
     (cm_tool_calls (message first) = None \<longrightarrow>
        heap (snd (invoke lib self (QList r) mn v w)) = heap w) \<and>
     (\<forall>tcs res. cm_tool_calls (message first) = Some tcs \<and>
        (\<forall>tc \<in> set tcs. make_tool_call lib self tc = Inr (res tc)) \<longrightarrow>
        heap (snd (invoke lib self (QList r) mn v w))
          = (heap w)(r := heap w r @ model_dump (message first) #
                            map (\<lambda>tc. tool_message (res tc)) tcs))"
proof -
  have q: "query_messages (QList r) w = (Inr r, w)"
    by (simp add: query_messages_def)
  have first_sent:
    "llm_log (snd (invoke lib self (QList r) mn v w)) ! length (llm_log w) = heap w r \<and>
     next_ref (snd (invoke lib self (QList r) mn v w)) = next_ref w"
  proof (cases "cm_tool_calls (message first)")
    case None
    note eq = invoke_no_tool_calls [OF q assms None, of v]
    show ?thesis by (simp add: eq sent_def)
  next
    case (Some tcs)
    let ?w1 = "list_append r (model_dump (message first)) (sent r w)"
    have inv: "invoke lib self (QList r) mn v w
      = (case tool_loop lib self r tcs ?w1 of
           (Some e, w2) \<Rightarrow> (Inl e, w2)
         | (None, w2) \<Rightarrow> make_llm_call lib self r mn w2)"
      using assms Some by (simp add: invoke_def q make_llm_call_eq)
    have keep: "llm_log (snd (tool_loop lib self r tcs u)) = llm_log u \<and>
                next_ref (snd (tool_loop lib self r tcs u)) = next_ref u" for tcs u
      by (induction tcs arbitrary: u)
         (auto simp: Let_def list_append_def split: sum.splits)
    obtain e w2 where l: "tool_loop lib self r tcs ?w1 = (e, w2)"
      by (cases "tool_loop lib self r tcs ?w1") auto
    from inv l have inv': "invoke lib self (QList r) mn v w
      = (case e of Some x \<Rightarrow> (Inl x, w2) | None \<Rightarrow> make_llm_call lib self r mn w2)"
      by (simp split: option.splits)
    from keep [of tcs ?w1] l have k: "llm_log w2 = llm_log w @ [heap w r]" "next_ref w2 = next_ref w"
      by (simp_all add: sent_def list_append_def)
    show ?thesis
      by (cases e) (simp_all add: inv' k make_llm_call_eq sent_def nth_append)
  qed
  have a: "cm_tool_calls (message first) = None \<longrightarrow>
        heap (snd (invoke lib self (QList r) mn v w)) = heap w"
  proof
    assume n: "cm_tool_calls (message first) = None"
    show "heap (snd (invoke lib self (QList r) mn v w)) = heap w"
      by (simp add: invoke_no_tool_calls [OF q assms n] sent_def)
  qed
  have b: "\<forall>tcs res. cm_tool_calls (message first) = Some tcs \<and>
        (\<forall>tc \<in> set tcs. make_tool_call lib self tc = Inr (res tc)) \<longrightarrow>
        heap (snd (invoke lib self (QList r) mn v w))
          = (heap w)(r := heap w r @ model_dump (message first) #
                            map (\<lambda>tc. tool_message (res tc)) tcs)"
  proof (intro allI impI, elim conjE)
    fix tcs res
    assume s: "cm_tool_calls (message first) = Some tcs"
      and ok: "\<forall>tc \<in> set tcs. make_tool_call lib self tc = Inr (res tc)"
    show "heap (snd (invoke lib self (QList r) mn v w))
          = (heap w)(r := heap w r @ model_dump (message first) #
                            map (\<lambda>tc. tool_message (res tc)) tcs)"
      by (simp add: invoke_batch_ok [OF q assms s ok] make_llm_call_eq batch_done_def
          list_append_def sent_def)
  qed
  from first_sent a b show ?thesis by blast
qed


theorem invoke_list_query_in_place_witness:
  "heap (snd (invoke (scripted [assistant None (Some [request ''call_1'' ''ping'' None]),
                                assistant (Some ''done'') None])
          demo_client (QList 0) None False caller_world)) 0
     = [user_message ''hi'',
        model_dump (message (assistant None (Some [request ''call_1'' ''ping'' None]))),
        tool_message (''call_1'', ''ping'', ''pong'')] \<and>
   heap (snd (invoke (scripted [assistant (Some ''hello'') None])
          demo_client (QList 0) None False caller_world)) = heap caller_world"
proof -
  let ?tc = "request ''call_1'' ''ping'' None"
  let ?first = "assistant None (Some [?tc])"
  let ?lib = "scripted [?first, assistant (Some ''done'') None]"
  have c: "completion ?lib demo_client (length (llm_log caller_world)) None (heap caller_world 0)
             = Inr ?first"
    by (simp add: completion_def scripted_def caller_world_def)
  have t: "cm_tool_calls (message ?first) = Some [?tc]"
    by (simp add: assistant_def)
  have d: "\<forall>tc \<in> set [?tc].
             make_tool_call ?lib demo_client tc = Inr ((\<lambda>tc. (''call_1'', ''ping'', ''pong'')) tc)"
    by (simp add: make_tool_call_def load_arguments_def request_def demo_client_def
        ping_tool_def scripted_def)
  note step = invoke_list_query_in_place [OF c, of False, THEN conjunct2, THEN conjunct2,
      THEN conjunct2, rule_format, of "[?tc]" "\<lambda>tc. (''call_1'', ''ping'', ''pong'')"]
  from step [OF conjI [OF t d]]
  have "heap (snd (invoke ?lib demo_client (QList 0) None False caller_world))
          = (heap caller_world)(0 := heap caller_world 0 @ model_dump (message ?first) #
               map (\<lambda>tc. tool_message (''call_1'', ''ping'', ''pong'')) [?tc])"
    by simp
  then have one: "heap (snd (invoke ?lib demo_client (QList 0) None False caller_world)) 0
          = [user_message ''hi'', model_dump (message ?first),
             tool_message (''call_1'', ''ping'', ''pong'')]"
    by (simp add: caller_world_def)
  have c': "completion (scripted [assistant (Some ''hello'') None]) demo_client
              (length (llm_log caller_world)) None (heap caller_world 0)
             = Inr (assistant (Some ''hello'') None)"
    by (simp add: completion_def scripted_def caller_world_def)
  have n: "cm_tool_calls (message (assistant (Some ''hello'') None)) = None"
    by (simp add: assistant_def)
  from invoke_list_query_in_place [OF c', of False] n
  have two: "heap (snd (invoke (scripted [assistant (Some ''hello'') None])
          demo_client (QList 0) None False caller_world)) = heap caller_world"
    by blast
  from one two show ?thesis by simp
qed

text \<open>
  C10 as stated fails: a first response whose \<open>tool_calls\<close> is the empty list carries no
  tool call, and yet the caller's list has grown by the assistant Message.
\<close>

theorem invoke_list_query_empty_tool_calls:
  "cm_tool_calls (message (assistant (Some ''hello'') (Some []))) = Some [] \<and>
   heap caller_world 0 = [user_message ''hi''] \<and>
   heap (snd (invoke (scripted [assistant (Some ''hello'') (Some []),
                                assistant (Some ''done'') None])
          demo_client (QList 0) None False caller_world)) 0
     = [user_message ''hi'', model_dump (message (assistant (Some ''hello'') (Some [])))]"
  by (simp add: demo_defs)

end
